theory Spec2Isabelle
  imports Main
begin

section \<open>Data model of \<^verbatim>\<open>scr/pic/draw.py\<close>\<close>

text \<open>
  The module has one function, \<^verbatim>\<open>draw_circles_on_image_v2\<close>. Everything it computes
  with comes from three collaborators: the \<^verbatim>\<open>base64\<close> module, \<^verbatim>\<open>PIL.Image\<close> and
  \<^verbatim>\<open>PIL.ImageDraw\<close>. Their code is not part of the module, so the operations the function
  calls are the fields of a record that every definition below takes as its first
  argument. A call that can raise returns a sum: \<open>Inl e\<close> is the exception \<open>e\<close>
  (an instance of Python's \<^verbatim>\<open>Exception\<close>), \<open>Inr v\<close> the value.
\<close>

text \<open>Python's \<^verbatim>\<open>bytes\<close>: a sequence of octets. A HOL \<open>char\<close> is one octet.\<close>

type_synonym bytes = "char list"

text \<open>
  \<^verbatim>\<open>ColorValue = Union[str, Tuple[int, int, int], Tuple[int, int, int, int]]\<close>;
  the fill colour is \<^verbatim>\<open>Optional[ColorValue]\<close>, here \<open>ColorValue option\<close>.
\<close>

datatype ColorValue =
    Named string
  | RGB int int int
  | RGBA int int int int

text \<open>The \<^verbatim>\<open>xy\<close> argument of \<^verbatim>\<open>ellipse\<close>: two corner points.\<close>

type_synonym box = "(int \<times> int) \<times> (int \<times> int)"

record ('img, 'e) library =
  b64decode :: "string \<Rightarrow> 'e + bytes"
    \<comment> \<open>\<^verbatim>\<open>base64.b64decode(s)\<close>\<close>
  Image_open :: "bytes \<Rightarrow> 'e + 'img"
    \<comment> \<open>\<^verbatim>\<open>Image.open(io.BytesIO(data))\<close>\<close>
  mode :: "'img \<Rightarrow> string"
    \<comment> \<open>\<^verbatim>\<open>image.mode\<close>\<close>
  convert :: "'img \<Rightarrow> string \<Rightarrow> 'e + 'img"
    \<comment> \<open>\<^verbatim>\<open>image.convert(mode)\<close>\<close>
  Draw :: "'img \<Rightarrow> 'e + 'img"
    \<comment> \<open>\<^verbatim>\<open>ImageDraw.Draw(image)\<close>: the context draws into the image in place, so the
        model threads the image itself through the drawing calls\<close>
  ellipse :: "'img \<Rightarrow> box \<Rightarrow> ColorValue option \<Rightarrow> ColorValue \<Rightarrow> int \<Rightarrow> 'e + 'img"
    \<comment> \<open>\<^verbatim>\<open>draw.ellipse(xy=, fill=, outline=, width=)\<close>: the image after the call\<close>
  save :: "'img \<Rightarrow> string \<Rightarrow> 'e + bytes"
    \<comment> \<open>\<^verbatim>\<open>image.save(buffer, format=)\<close> followed by \<^verbatim>\<open>buffer.getvalue()\<close>\<close>
  b64encode :: "bytes \<Rightarrow> bytes"
    \<comment> \<open>\<^verbatim>\<open>base64.b64encode(data)\<close>\<close>
  bytes_decode :: "bytes \<Rightarrow> string \<Rightarrow> 'e + string"
    \<comment> \<open>\<^verbatim>\<open>data.decode(encoding)\<close>\<close>
  str_of :: "'e \<Rightarrow> string"
    \<comment> \<open>\<^verbatim>\<open>str(e)\<close>, as the f-string formats the exception\<close>

text \<open>Standard output, as the list of lines printed so far.\<close>

type_synonym stdout = "string list"

section \<open>The function\<close>

text \<open>
  The text \<^verbatim>\<open>print\<close> puts before the exception (source line 66), as its UTF-8 octets.
\<close>

definition error_prefix :: string where
  "error_prefix =
     map char_of
       [229, 164, 132, 231, 144, 134, 229, 155, 190, 231, 137, 135, 230, 151, 182,
        229, 143, 145, 231, 148, 159, 233, 148, 153, 232, 175, 175, 58, 32 :: nat]"

text \<open>
  Source lines 43 to 53: one \<^verbatim>\<open>ellipse\<close> call for each coordinate, in list order. An
  exception leaves the loop at once.
\<close>

fun draw_loop ::
  "('img \<Rightarrow> box \<Rightarrow> ColorValue option \<Rightarrow> ColorValue \<Rightarrow> int \<Rightarrow> 'e + 'img) \<Rightarrow>
   'img \<Rightarrow> (int \<times> int) list \<Rightarrow> int \<Rightarrow> ColorValue option \<Rightarrow> ColorValue \<Rightarrow> int \<Rightarrow> 'e + 'img"
where
  "draw_loop draw_ellipse im [] radius fill_color outline_color outline_width = Inr im"
| "draw_loop draw_ellipse im ((x, y) # coordinates) radius fill_color outline_color
       outline_width =
     (let bounding_box = ((x - radius, y - radius), (x + radius, y + radius)) in
      case draw_ellipse im bounding_box fill_color outline_color outline_width of
        Inl e \<Rightarrow> Inl e
      | Inr im' \<Rightarrow>
          draw_loop draw_ellipse im' coordinates radius fill_color outline_color
            outline_width)"

text \<open>Source lines 38 and 39.\<close>

definition to_rgba :: "('img, 'e) library \<Rightarrow> 'img \<Rightarrow> 'e + 'img" where
  "to_rgba lib im =
     (if mode lib im \<noteq> ''RGBA'' then convert lib im ''RGBA'' else Inr im)"

text \<open>Source lines 34 to 63: the body of the \<^verbatim>\<open>try\<close>.\<close>

definition try_body ::
  "('img, 'e) library \<Rightarrow> string \<Rightarrow> (int \<times> int) list \<Rightarrow> int \<Rightarrow> ColorValue option \<Rightarrow>
   ColorValue \<Rightarrow> int \<Rightarrow> 'e + string"
where
  "try_body lib base64_image_string coordinates radius fill_color outline_color outline_width =
     (case b64decode lib base64_image_string of
        Inl e \<Rightarrow> Inl e
      | Inr image_data \<Rightarrow>
     (case Image_open lib image_data of
        Inl e \<Rightarrow> Inl e
      | Inr im \<Rightarrow>
     (case to_rgba lib im of
        Inl e \<Rightarrow> Inl e
      | Inr im \<Rightarrow>
     (case Draw lib im of
        Inl e \<Rightarrow> Inl e
      | Inr im \<Rightarrow>
     (case draw_loop (ellipse lib) im coordinates radius fill_color outline_color
             outline_width of
        Inl e \<Rightarrow> Inl e
      | Inr im \<Rightarrow>
     (case save lib im ''PNG'' of
        Inl e \<Rightarrow> Inl e
      | Inr byte_data \<Rightarrow>
          bytes_decode lib (b64encode lib byte_data) ''utf-8''))))))"

text \<open>
  The whole function: the \<^verbatim>\<open>except Exception as e\<close> handler prints one line and raises
  \<open>e\<close> again. The result is the standard output after the call and what the call
  returned or raised.
\<close>

definition draw_circles_on_image_v2 ::
  "('img, 'e) library \<Rightarrow> stdout \<Rightarrow> string \<Rightarrow> (int \<times> int) list \<Rightarrow> int \<Rightarrow>
   ColorValue option \<Rightarrow> ColorValue \<Rightarrow> int \<Rightarrow> stdout \<times> ('e + string)"
where
  "draw_circles_on_image_v2 lib out base64_image_string coordinates radius fill_color
       outline_color outline_width =
     (case try_body lib base64_image_string coordinates radius fill_color outline_color
             outline_width of
        Inr new_base64_string \<Rightarrow> (out, Inr new_base64_string)
      | Inl e \<Rightarrow> (out @ [error_prefix @ str_of lib e], Inl e))"

text \<open>
  A call site: each keyword argument is given or left out (\<open>None\<close>), and one left out
  takes the default of the signature (source lines 15 to 20). The fill colour given as
  Python's \<^verbatim>\<open>None\<close> is \<open>Some None\<close>.
\<close>

record keyword_args =
  kw_radius :: "int option"
  kw_fill_color :: "ColorValue option option"
  kw_outline_color :: "ColorValue option"
  kw_outline_width :: "int option"

definition call_draw_circles_on_image_v2 ::
  "('img, 'e) library \<Rightarrow> stdout \<Rightarrow> string \<Rightarrow> (int \<times> int) list \<Rightarrow> keyword_args \<Rightarrow>
   stdout \<times> ('e + string)"
where
  "call_draw_circles_on_image_v2 lib out base64_image_string coordinates kw =
     draw_circles_on_image_v2 lib out base64_image_string coordinates
       (case kw_radius kw of None \<Rightarrow> 15 | Some radius \<Rightarrow> radius)
       (case kw_fill_color kw of None \<Rightarrow> Some (Named ''red'') | Some fill_color \<Rightarrow> fill_color)
       (case kw_outline_color kw of None \<Rightarrow> Named ''red'' | Some outline_color \<Rightarrow> outline_color)
       (case kw_outline_width kw of None \<Rightarrow> 1 | Some outline_width \<Rightarrow> outline_width)"

section \<open>What the properties speak about\<close>

text \<open>
  One \<^verbatim>\<open>ellipse\<close> call, as its four arguments, and an \<^verbatim>\<open>ellipse\<close> operation that only
  writes down the calls made on it: run on the loop, it shows which calls the loop makes.
\<close>

type_synonym ellipse_call = "box \<times> ColorValue option \<times> ColorValue \<times> int"


text \<open>Making a list of calls on an image, first to last, up to the first that raises.\<close>

fun replay ::
  "('img \<Rightarrow> box \<Rightarrow> ColorValue option \<Rightarrow> ColorValue \<Rightarrow> int \<Rightarrow> 'e + 'img) \<Rightarrow>
   'img \<Rightarrow> ellipse_call list \<Rightarrow> 'e + 'img"
where
  "replay draw_ellipse im [] = Inr im"
| "replay draw_ellipse im ((bounding_box, fill, outline, width) # calls) =
     (case draw_ellipse im bounding_box fill outline width of
        Inl e \<Rightarrow> Inl e
      | Inr im' \<Rightarrow> replay draw_ellipse im' calls)"

text \<open>The square around the centre \<open>(x, y)\<close> with half side \<open>radius\<close>, as the spec writes it.\<close>

definition square_around :: "int \<times> int \<Rightarrow> int \<Rightarrow> box" where
  "square_around c radius = ((fst c - radius, snd c - radius), (fst c + radius, snd c + radius))"

text \<open>A point lies outside a box widened by \<open>pad\<close> on every side.\<close>

definition outside_box :: "int \<times> int \<Rightarrow> box \<Rightarrow> int \<Rightarrow> bool" where
  "outside_box p b pad =
     (fst p < fst (fst b) - pad \<or> fst (snd b) + pad < fst p \<or>
      snd p < snd (fst b) - pad \<or> snd (snd b) + pad < snd p)"

text \<open>
  What the drawing primitive promises, for a pixel reading \<open>getpixel\<close> of the image type:
  an \<^verbatim>\<open>ellipse\<close> call with a width that is not negative changes no pixel outside its box
  widened by that width.
\<close>

definition ellipse_confined ::
  "('img, 'e) library \<Rightarrow> ('img \<Rightarrow> int \<times> int \<Rightarrow> 'p) \<Rightarrow> bool"
where
  "ellipse_confined lib getpixel =
     (\<forall>im b fill outline width im' p.
        ellipse lib im b fill outline width = Inr im' \<and> 0 \<le> width \<and> outside_box p b width
          \<longrightarrow> getpixel im' p = getpixel im p)"

text \<open>An image written as PNG and put into base64 text, as source lines 55 to 61 do.\<close>

definition reencoded_as_png :: "('img, 'e) library \<Rightarrow> 'img \<Rightarrow> 'e + string" where
  "reencoded_as_png lib im =
     (case save lib im ''PNG'' of
        Inl e \<Rightarrow> Inl e
      | Inr byte_data \<Rightarrow> bytes_decode lib (b64encode lib byte_data) ''utf-8'')"

text \<open>
  What the image library promises about modes: a conversion to a mode gives an image of
  that mode, and neither a drawing context nor an \<^verbatim>\<open>ellipse\<close> call changes the mode.
\<close>

definition modes_kept :: "('img, 'e) library \<Rightarrow> bool" where
  "modes_kept lib =
     ((\<forall>im m im'. convert lib im m = Inr im' \<longrightarrow> mode lib im' = m) \<and>
      (\<forall>im im'. Draw lib im = Inr im' \<longrightarrow> mode lib im' = mode lib im) \<and>
      (\<forall>im b fill outline width im'.
         ellipse lib im b fill outline width = Inr im' \<longrightarrow> mode lib im' = mode lib im))"

text \<open>
  A step of the call fails with the exception \<open>e\<close>: one rule for each call into a
  collaborator, in the order of the source, each after the steps before it went well.
\<close>

inductive step_fails ::
  "('img, 'e) library \<Rightarrow> string \<Rightarrow> (int \<times> int) list \<Rightarrow> int \<Rightarrow> ColorValue option \<Rightarrow>
   ColorValue \<Rightarrow> int \<Rightarrow> 'e \<Rightarrow> bool"
  for lib :: "('img, 'e) library" and s :: string
where
  base64_fails:
    "b64decode lib s = Inl e \<Longrightarrow> step_fails lib s coordinates radius fill outline width e"
| open_fails:
    "b64decode lib s = Inr image_data \<Longrightarrow> Image_open lib image_data = Inl e \<Longrightarrow>
     step_fails lib s coordinates radius fill outline width e"
| convert_fails:
    "b64decode lib s = Inr image_data \<Longrightarrow> Image_open lib image_data = Inr im0 \<Longrightarrow>
     mode lib im0 \<noteq> ''RGBA'' \<Longrightarrow> convert lib im0 ''RGBA'' = Inl e \<Longrightarrow>
     step_fails lib s coordinates radius fill outline width e"
| context_fails:
    "b64decode lib s = Inr image_data \<Longrightarrow> Image_open lib image_data = Inr im0 \<Longrightarrow>
     to_rgba lib im0 = Inr im1 \<Longrightarrow> Draw lib im1 = Inl e \<Longrightarrow>
     step_fails lib s coordinates radius fill outline width e"
| ellipse_fails:
    "b64decode lib s = Inr image_data \<Longrightarrow> Image_open lib image_data = Inr im0 \<Longrightarrow>
     to_rgba lib im0 = Inr im1 \<Longrightarrow> Draw lib im1 = Inr im2 \<Longrightarrow>
     draw_loop (ellipse lib) im2 before radius fill outline width = Inr im3 \<Longrightarrow>
     ellipse lib im3 (square_around c radius) fill outline width = Inl e \<Longrightarrow>
     step_fails lib s (before @ c # after) radius fill outline width e"
| save_fails:
    "b64decode lib s = Inr image_data \<Longrightarrow> Image_open lib image_data = Inr im0 \<Longrightarrow>
     to_rgba lib im0 = Inr im1 \<Longrightarrow> Draw lib im1 = Inr im2 \<Longrightarrow>
     draw_loop (ellipse lib) im2 coordinates radius fill outline width = Inr im3 \<Longrightarrow>
     save lib im3 ''PNG'' = Inl e \<Longrightarrow>
     step_fails lib s coordinates radius fill outline width e"
| text_fails:
    "b64decode lib s = Inr image_data \<Longrightarrow> Image_open lib image_data = Inr im0 \<Longrightarrow>
     to_rgba lib im0 = Inr im1 \<Longrightarrow> Draw lib im1 = Inr im2 \<Longrightarrow>
     draw_loop (ellipse lib) im2 coordinates radius fill outline width = Inr im3 \<Longrightarrow>
     save lib im3 ''PNG'' = Inr byte_data \<Longrightarrow>
     bytes_decode lib (b64encode lib byte_data) ''utf-8'' = Inl e \<Longrightarrow>
     step_fails lib s coordinates radius fill outline width e"

section \<open>A small instance of the collaborators\<close>

text \<open>
  The properties below hold for every library record. To run them on concrete inputs,
  this section builds one small record: standard base64 text, an uncompressed image
  format (one octet for the number of bands, one for the width, one for the height,
  then the pixels row by row), and an \<^verbatim>\<open>ellipse\<close> that paints the lattice points of the
  inscribed ellipse. It is a stand-in to compute with, not a description of Pillow.
\<close>

datatype sample_exception =
    binascii_Error
  | UnidentifiedImageError
  | ValueError string
  | UnicodeDecodeError

fun sample_str :: "sample_exception \<Rightarrow> string" where
  "sample_str binascii_Error = ''Incorrect padding''"
| "sample_str UnidentifiedImageError = ''cannot identify image file''"
| "sample_str (ValueError m) = m"
| "sample_str UnicodeDecodeError = ''invalid start byte''"

definition b64_alphabet :: string where
  "b64_alphabet = ''ABCDEFGHIJKLMNOPQRSTUVWXYZabcdefghijklmnopqrstuvwxyz0123456789+/''"

fun position :: "'a \<Rightarrow> 'a list \<Rightarrow> nat option" where
  "position a [] = None"
| "position a (b # bs) =
     (if a = b then Some 0 else case position a bs of None \<Rightarrow> None | Some n \<Rightarrow> Some (Suc n))"

definition b64_value :: "char \<Rightarrow> nat option" where
  "b64_value c = position c b64_alphabet"

definition b64_digit :: "nat \<Rightarrow> char" where
  "b64_digit n = b64_alphabet ! (n mod 64)"

fun sample_b64decode :: "string \<Rightarrow> sample_exception + bytes" where
  "sample_b64decode [] = Inr []"
| "sample_b64decode (a # b # c # d # rest) =
     (case (b64_value a, b64_value b) of
        (Some va, Some vb) \<Rightarrow>
          (if c = CHR ''='' then
             (if d = CHR ''='' \<and> rest = [] then Inr [char_of (va * 4 + vb div 16)]
              else Inl binascii_Error)
           else
             (case b64_value c of
                None \<Rightarrow> Inl binascii_Error
              | Some vc \<Rightarrow>
                  (if d = CHR ''='' then
                     (if rest = [] then
                        Inr [char_of (va * 4 + vb div 16), char_of (vb mod 16 * 16 + vc div 4)]
                      else Inl binascii_Error)
                   else
                     (case b64_value d of
                        None \<Rightarrow> Inl binascii_Error
                      | Some vd \<Rightarrow>
                          (case sample_b64decode rest of
                             Inl e \<Rightarrow> Inl e
                           | Inr bs \<Rightarrow>
                               Inr (char_of (va * 4 + vb div 16) #
                                    char_of (vb mod 16 * 16 + vc div 4) #
                                    char_of (vc mod 4 * 64 + vd) # bs))))))
      | _ \<Rightarrow> Inl binascii_Error)"
| "sample_b64decode _ = Inl binascii_Error"

fun sample_b64encode :: "bytes \<Rightarrow> bytes" where
  "sample_b64encode [] = []"
| "sample_b64encode [a] =
     (let x = of_char a :: nat in
      [b64_digit (x div 4), b64_digit (x mod 4 * 16), CHR ''='', CHR ''=''])"
| "sample_b64encode [a, b] =
     (let x = of_char a :: nat; y = of_char b :: nat in
      [b64_digit (x div 4), b64_digit (x mod 4 * 16 + y div 16), b64_digit (y mod 16 * 4),
       CHR ''=''])"
| "sample_b64encode (a # b # c # rest) =
     (let x = of_char a :: nat; y = of_char b :: nat; z = of_char c :: nat in
      b64_digit (x div 4) # b64_digit (x mod 4 * 16 + y div 16) #
      b64_digit (y mod 16 * 4 + z div 64) # b64_digit (z mod 64) # sample_b64encode rest)"

definition sample_bytes_decode :: "bytes \<Rightarrow> string \<Rightarrow> sample_exception + string" where
  "sample_bytes_decode data encoding =
     (if list_all (\<lambda>c. (of_char c :: nat) < 128) data then Inr data else Inl UnicodeDecodeError)"

record sample_image =
  im_mode :: string
  im_width :: nat
  im_height :: nat
  im_pixel :: "int \<times> int \<Rightarrow> nat list"

definition in_image :: "sample_image \<Rightarrow> int \<times> int \<Rightarrow> bool" where
  "in_image im p =
     (0 \<le> fst p \<and> fst p < int (im_width im) \<and> 0 \<le> snd p \<and> snd p < int (im_height im))"

definition bands_of_mode :: "string \<Rightarrow> nat" where
  "bands_of_mode m =
     (if m = ''L'' then 1 else if m = ''LA'' then 2 else if m = ''RGB'' then 3
      else if m = ''RGBA'' then 4 else 0)"

definition mode_of_bands :: "nat \<Rightarrow> string" where
  "mode_of_bands n =
     (if n = 1 then ''L'' else if n = 2 then ''LA'' else if n = 3 then ''RGB'' else ''RGBA'')"

definition sample_open :: "bytes \<Rightarrow> sample_exception + sample_image" where
  "sample_open data =
     (case map of_char data of
        n # w # h # pixels \<Rightarrow>
          (if n < 1 \<or> 4 < n then Inl UnidentifiedImageError
           else if length pixels \<noteq> n * w * h then Inl (ValueError ''image file is truncated'')
           else
             Inr \<lparr>im_mode = mode_of_bands n, im_width = w, im_height = h,
                  im_pixel =
                    (\<lambda>p. if 0 \<le> fst p \<and> fst p < int w \<and> 0 \<le> snd p \<and> snd p < int h
                         then take n (drop (n * (nat (snd p) * w + nat (fst p))) pixels)
                         else [])\<rparr>)
      | _ \<Rightarrow> Inl UnidentifiedImageError)"

definition rgba_of_pixel :: "nat list \<Rightarrow> nat list" where
  "rgba_of_pixel v =
     (case v of
        [l] \<Rightarrow> [l, l, l, 255]
      | [l, a] \<Rightarrow> [l, l, l, a]
      | [r, g, b] \<Rightarrow> [r, g, b, 255]
      | _ \<Rightarrow> v)"

definition sample_convert :: "sample_image \<Rightarrow> string \<Rightarrow> sample_exception + sample_image" where
  "sample_convert im m =
     (if m = ''RGBA'' then
        Inr (im\<lparr>im_mode := ''RGBA'',
                im_pixel := (\<lambda>p. if in_image im p then rgba_of_pixel (im_pixel im p) else [])\<rparr>)
      else if m = im_mode im then Inr im
      else Inl (ValueError ''conversion not supported''))"

fun sample_ink :: "ColorValue \<Rightarrow> sample_exception + nat list" where
  "sample_ink (Named name) =
     (if name = ''red'' then Inr [255, 0, 0, 255]
      else if name = ''black'' then Inr [0, 0, 0, 255]
      else Inl (ValueError (''unknown color specifier: '' @ name)))"
| "sample_ink (RGB r g b) = Inr [nat r, nat g, nat b, 255]"
| "sample_ink (RGBA r g b a) = Inr [nat r, nat g, nat b, nat a]"

definition in_ellipse :: "int \<times> int \<Rightarrow> box \<Rightarrow> bool" where
  "in_ellipse p b =
     (let x0 = fst (fst b); y0 = snd (fst b); x1 = fst (snd b); y1 = snd (snd b);
          w = x1 - x0; h = y1 - y0; dx = 2 * fst p - x0 - x1; dy = 2 * snd p - y0 - y1
      in x0 \<le> fst p \<and> fst p \<le> x1 \<and> y0 \<le> snd p \<and> snd p \<le> y1 \<and>
         dx * dx * (h * h) + dy * dy * (w * w) \<le> w * w * (h * h))"

definition shrink :: "box \<Rightarrow> int \<Rightarrow> box" where
  "shrink b w = ((fst (fst b) + w, snd (fst b) + w), (fst (snd b) - w, snd (snd b) - w))"

definition sample_ellipse ::
  "sample_image \<Rightarrow> box \<Rightarrow> ColorValue option \<Rightarrow> ColorValue \<Rightarrow> int \<Rightarrow>
   sample_exception + sample_image"
where
  "sample_ellipse im b fill outline width =
     (if fst (snd b) < fst (fst b) then
        Inl (ValueError ''x1 must be greater than or equal to x0'')
      else if snd (snd b) < snd (fst b) then
        Inl (ValueError ''y1 must be greater than or equal to y0'')
      else
        (case sample_ink outline of
           Inl e \<Rightarrow> Inl e
         | Inr line \<Rightarrow>
        (case (case fill of None \<Rightarrow> Inr None
               | Some c \<Rightarrow> (case sample_ink c of Inl e \<Rightarrow> Inl e | Inr i \<Rightarrow> Inr (Some i))) of
           Inl e \<Rightarrow> Inl e
         | Inr inside \<Rightarrow>
             Inr (im\<lparr>im_pixel :=
                    (\<lambda>p. if in_image im p \<and> in_ellipse p b then
                            (if 0 < width \<and> \<not> in_ellipse p (shrink b width) then line
                             else (case inside of None \<Rightarrow> im_pixel im p | Some i \<Rightarrow> i))
                          else im_pixel im p)\<rparr>))))"

definition sample_save :: "sample_image \<Rightarrow> string \<Rightarrow> sample_exception + bytes" where
  "sample_save im format =
     (if format \<noteq> ''PNG'' then Inl (ValueError (''unknown file extension: '' @ format))
      else
        Inr (map char_of
               (bands_of_mode (im_mode im) # im_width im # im_height im #
                concat (map (\<lambda>i. im_pixel im (int (i mod im_width im), int (i div im_width im)))
                          [0 ..< im_width im * im_height im]))))"

definition sample_library :: "(sample_image, sample_exception) library" where
  "sample_library =
     \<lparr>b64decode = sample_b64decode,
      Image_open = sample_open,
      mode = im_mode,
      convert = sample_convert,
      Draw = Inr,
      ellipse = sample_ellipse,
      save = sample_save,
      b64encode = sample_b64encode,
      bytes_decode = sample_bytes_decode,
      str_of = sample_str\<rparr>"

text \<open>
  Three inputs in that format: a 3 by 3 image of mode RGBA with every pixel
  \<open>(10, 20, 30, 255)\<close>, a 5 by 5 image of mode L with the pixels 0, 10, ..., 240, and a
  2 by 2 image of mode LA with every pixel \<open>(7, 200)\<close>.
\<close>

definition rgba_3x3 :: string where
  "rgba_3x3 = ''BAMDChQe/woUHv8KFB7/ChQe/woUHv8KFB7/ChQe/woUHv8KFB7/''"

definition gray_5x5 :: string where
  "gray_5x5 = ''AQUFAAoUHigyPEZQWmRueIKMlqCqtL7I0tzm8A==''"

definition la_2x2 :: string where
  "la_2x2 = ''AgICB8gHyAfIB8g=''"

text \<open>
  Base64 text as RFC 4648 defines it: a multiple of four characters, all of the alphabet,
  but for one or two \<open>=\<close> that may end it.
\<close>

definition valid_base64 :: "string \<Rightarrow> bool" where
  "valid_base64 s =
     (let n = length (takeWhile (\<lambda>c. c \<noteq> CHR ''='') s); pad = drop n s in
      length s mod 4 = 0 \<and> list_all (\<lambda>c. b64_value c \<noteq> None) (take n s) \<and>
      length pad \<le> 2 \<and> list_all (\<lambda>c. c = CHR ''='') pad)"

text \<open>
  The source calls \<^verbatim>\<open>base64.b64decode(s)\<close> with one argument, so \<^verbatim>\<open>validate\<close> has its
  default \<^verbatim>\<open>False\<close>: as the library documents it, characters that are not of the alphabet
  are discarded before the padding is checked. The decoder below does that and then
  decodes what is left; the library beside it is the small instance with this decoder.
\<close>

definition lenient_b64decode :: "string \<Rightarrow> sample_exception + bytes" where
  "lenient_b64decode s =
     sample_b64decode (filter (\<lambda>c. b64_value c \<noteq> None \<or> c = CHR ''='') s)"

definition lenient_library :: "(sample_image, sample_exception) library" where
  "lenient_library = sample_library\<lparr>b64decode := lenient_b64decode\<rparr>"

section \<open>Properties\<close>

subsection \<open>The loop and the body of the \<^verbatim>\<open>try\<close>\<close>

lemma draw_loop_append:
  "draw_loop ell im (xs @ ys) r f ol w =
     (case draw_loop ell im xs r f ol w of
        Inl e \<Rightarrow> Inl e
      | Inr im' \<Rightarrow> draw_loop ell im' ys r f ol w)"
  by (induction xs arbitrary: im) (auto split: sum.splits)

lemma draw_loop_raises_at:
  assumes "draw_loop ell im before r f ol w = Inr im'"
    and "ell im' (square_around c r) f ol w = Inl e"
  shows "draw_loop ell im (before @ c # after) r f ol w = Inl e"
  using assms by (cases c) (simp add: draw_loop_append square_around_def)

lemma draw_loop_replay:
  "draw_loop ell im cs r f ol w =
     replay ell im (map (\<lambda>(x, y). (((x - r, y - r), (x + r, y + r)), f, ol, w)) cs)"
  by (induction cs arbitrary: im) (auto split: sum.splits)


lemma raise_is_reported:
  "try_body lib s cs r f ol w = Inl e \<Longrightarrow>
   draw_circles_on_image_v2 lib out s cs r f ol w = (out @ [error_prefix @ str_of lib e], Inl e)"
  by (simp add: draw_circles_on_image_v2_def)

lemma step_fails_try_body:
  "step_fails lib s cs r f ol w e \<Longrightarrow> try_body lib s cs r f ol w = Inl e"
proof (induction rule: step_fails.induct)
  case (ellipse_fails image_data im0 im1 im2 before radius fill outline width im3 c e after)
  then show ?case
    by (simp add: try_body_def draw_loop_raises_at)
qed (simp_all add: try_body_def to_rgba_def)

lemma returns_iff:
  "draw_circles_on_image_v2 lib out s cs r f ol w = (out', Inr res) \<longleftrightarrow>
     out' = out \<and> try_body lib s cs r f ol w = Inr res"
  by (auto simp: draw_circles_on_image_v2_def split: sum.splits)

lemma try_body_returns:
  "try_body lib s cs r f ol w = Inr res \<longleftrightarrow>
     (\<exists>image_data im0 im1 im2 im3 byte_data.
        b64decode lib s = Inr image_data \<and> Image_open lib image_data = Inr im0 \<and>
        to_rgba lib im0 = Inr im1 \<and> Draw lib im1 = Inr im2 \<and>
        draw_loop (ellipse lib) im2 cs r f ol w = Inr im3 \<and>
        save lib im3 ''PNG'' = Inr byte_data \<and>
        bytes_decode lib (b64encode lib byte_data) ''utf-8'' = Inr res)"
  by (auto simp: try_body_def split: sum.splits)

lemma draw_loop_mode:
  assumes "modes_kept lib"
  shows "draw_loop (ellipse lib) im cs r f ol w = Inr im' \<Longrightarrow> mode lib im' = mode lib im"
proof (induction cs arbitrary: im)
  case Nil
  then show ?case by simp
next
  case (Cons c cs)
  obtain x y where c: "c = (x, y)" by (cases c)
  from Cons.prems obtain im1 where
    e: "ellipse lib im ((x - r, y - r), (x + r, y + r)) f ol w = Inr im1" and
    l: "draw_loop (ellipse lib) im1 cs r f ol w = Inr im'"
    by (auto simp: c split: sum.splits)
  from e assms have "mode lib im1 = mode lib im"
    unfolding modes_kept_def by blast
  with Cons.IH [OF l] show ?case by simp
qed

subsection \<open>The small instance keeps the promises\<close>

lemma sample_ellipse_confined: "ellipse_confined sample_library im_pixel"
  unfolding ellipse_confined_def
proof (intro allI impI)
  fix im b fill outline width im' and p :: "int \<times> int"
  assume a: "ellipse sample_library im b fill outline width = Inr im' \<and> 0 \<le> width \<and>
    outside_box p b width"
  then have out: "\<not> in_ellipse p b"
    by (auto simp: outside_box_def in_ellipse_def Let_def)
  from a have "sample_ellipse im b fill outline width = Inr im'"
    by (simp add: sample_library_def)
  with out show "im_pixel im' p = im_pixel im p"
    by (auto simp: sample_ellipse_def split: if_splits sum.splits option.splits)
qed

lemma sample_modes_kept: "modes_kept sample_library"
  unfolding modes_kept_def
  by (auto simp: sample_library_def sample_convert_def sample_ellipse_def
      split: if_splits sum.splits option.splits)

lemma is_value: "\<not> isl v \<Longrightarrow> v = Inr (projr v)"
  by (cases v) simp_all

subsection \<open>The claims\<close>

text \<open>
  C8. A call that leaves out every drawing parameter runs with radius 15, fill colour
  \<^verbatim>\<open>"red"\<close>, outline colour \<^verbatim>\<open>"red"\<close> and outline width 1.
\<close>

theorem defaults_when_omitted:
  "call_draw_circles_on_image_v2 lib out s coordinates
     \<lparr>kw_radius = None, kw_fill_color = None, kw_outline_color = None,
      kw_outline_width = None\<rparr> =
   draw_circles_on_image_v2 lib out s coordinates 15 (Some (Named ''red'')) (Named ''red'') 1"
  by (simp add: call_draw_circles_on_image_v2_def)

text \<open>
  C1. When the text decodes, the octets open as an image, the conversion and the drawing
  context succeed, one \<^verbatim>\<open>ellipse\<close> call for each coordinate on the square around it
  succeeds on the image so prepared, and the result can be written as PNG, the function
  prints nothing and returns the base64 text of that PNG: the input image, in RGBA, with
  one ellipse for each coordinate.
\<close>

theorem valid_input_returns_annotated_png:
  assumes "b64decode lib s = Inr image_data"
    and "Image_open lib image_data = Inr im0"
    and "to_rgba lib im0 = Inr im1"
    and "Draw lib im1 = Inr im2"
    and "replay (ellipse lib) im2
           (map (\<lambda>(x, y). (((x - radius, y - radius), (x + radius, y + radius)),
                           fill_color, outline_color, outline_width)) coordinates) = Inr im3"
    and "save lib im3 ''PNG'' = Inr byte_data"
    and "bytes_decode lib (b64encode lib byte_data) ''utf-8'' = Inr new_base64_string"
  shows "draw_circles_on_image_v2 lib out s coordinates radius fill_color outline_color
           outline_width = (out, Inr new_base64_string)"
  unfolding returns_iff try_body_returns using assms by (auto simp: draw_loop_replay)

theorem valid_input_returns_annotated_png_witness:
  "draw_circles_on_image_v2 sample_library [] gray_5x5 [(3, 3)] 1 (Some (Named ''red''))
     (Named ''black'') 1 =
   ([], Inr ''BAUFAAAA/woKCv8UFBT/Hh4e/ygoKP8yMjL/PDw8/0ZGRv9QUFD/Wlpa/2RkZP9ubm7/eHh4/wAAAP+MjIz/lpaW/6CgoP8AAAD//wAA/wAAAP/IyMj/0tLS/9zc3P8AAAD/8PDw/w=='')"
proof -
  let ?data = "projr (b64decode sample_library gray_5x5)"
  let ?im0 = "projr (Image_open sample_library ?data)"
  let ?im1 = "projr (to_rgba sample_library ?im0)"
  let ?im2 = "projr (Draw sample_library ?im1)"
  let ?calls = "map (\<lambda>(x, y). (((x - 1, y - 1), (x + 1, y + 1)), Some (Named ''red''),
                    Named ''black'', 1 :: int)) [(3, 3)]"
  let ?im3 = "projr (replay (ellipse sample_library) ?im2 ?calls)"
  let ?png = "projr (save sample_library ?im3 ''PNG'')"
  let ?text = "projr (bytes_decode sample_library (b64encode sample_library ?png) ''utf-8'')"
  have h1: "b64decode sample_library gray_5x5 = Inr ?data"
    by (rule is_value) code_simp
  have h2: "Image_open sample_library ?data = Inr ?im0"
    by (rule is_value) code_simp
  have h3: "to_rgba sample_library ?im0 = Inr ?im1"
    by (rule is_value) code_simp
  have h4: "Draw sample_library ?im1 = Inr ?im2"
    by (rule is_value) code_simp
  have h5: "replay (ellipse sample_library) ?im2 ?calls = Inr ?im3"
    by (rule is_value) code_simp
  have h6: "save sample_library ?im3 ''PNG'' = Inr ?png"
    by (rule is_value) code_simp
  have h7: "bytes_decode sample_library (b64encode sample_library ?png) ''utf-8'' = Inr ?text"
    by (rule is_value) code_simp
  have r: "?text = ''BAUFAAAA/woKCv8UFBT/Hh4e/ygoKP8yMjL/PDw8/0ZGRv9QUFD/Wlpa/2RkZP9ubm7/eHh4/wAAAP+MjIz/lpaW/6CgoP8AAAD//wAA/wAAAP/IyMj/0tLS/9zc3P8AAAD/8PDw/w==''"
    by code_simp
  from valid_input_returns_annotated_png [OF h1 h2 h3 h4 h5 h6 h7, of "[]"] r
  show ?thesis by simp
qed

text \<open>
  C2. Whichever step fails (base64 decoding, opening the image, the conversion, the
  drawing context, an \<^verbatim>\<open>ellipse\<close> call, saving, or decoding the text), the call prints
  one line, the prefix followed by the exception's text, and raises that exception: no
  string is returned.
\<close>

theorem every_failure_propagates:
  "step_fails lib s coordinates radius fill_color outline_color outline_width e \<Longrightarrow>
   draw_circles_on_image_v2 lib out s coordinates radius fill_color outline_color outline_width =
     (out @ [error_prefix @ str_of lib e], Inl e)"
  by (rule raise_is_reported) (rule step_fails_try_body)

theorem every_failure_propagates_witness:
  "draw_circles_on_image_v2 sample_library [] rgba_3x3 [(1, 1), (2, 2)] 1
     (Some (Named ''nocolor'')) (Named ''black'') 0 =
   ([error_prefix @ ''unknown color specifier: nocolor''],
    Inl (ValueError ''unknown color specifier: nocolor''))"
proof -
  let ?data = "projr (b64decode sample_library rgba_3x3)"
  let ?im0 = "projr (Image_open sample_library ?data)"
  let ?im1 = "projr (to_rgba sample_library ?im0)"
  let ?im2 = "projr (Draw sample_library ?im1)"
  have h1: "b64decode sample_library rgba_3x3 = Inr ?data"
    by (rule is_value) code_simp
  have h2: "Image_open sample_library ?data = Inr ?im0"
    by (rule is_value) code_simp
  have h3: "to_rgba sample_library ?im0 = Inr ?im1"
    by (rule is_value) code_simp
  have h4: "Draw sample_library ?im1 = Inr ?im2"
    by (rule is_value) code_simp
  have h5: "draw_loop (ellipse sample_library) ?im2 [] 1 (Some (Named ''nocolor''))
              (Named ''black'') 0 = Inr ?im2"
    by simp
  have h6: "ellipse sample_library ?im2 (square_around (1, 1) 1) (Some (Named ''nocolor''))
              (Named ''black'') 0 = Inl (ValueError ''unknown color specifier: nocolor'')"
    by (simp add: sample_library_def sample_ellipse_def square_around_def)
  have "step_fails sample_library rgba_3x3 ([] @ (1, 1) # [(2, 2)]) 1
          (Some (Named ''nocolor'')) (Named ''black'') 0
          (ValueError ''unknown color specifier: nocolor'')"
    by (rule step_fails.ellipse_fails [OF h1 h2 h3 h4 h5 h6])
  from every_failure_propagates [OF this, of "[]"]
  show ?thesis by (simp add: sample_library_def)
qed

text \<open>
  C3, as stated, fails: a string that is not valid base64 need not be rejected. The
  decoder the source calls drops the characters outside the alphabet, so a valid image
  text with \<open>!\<close> put before it is not valid base64, and the call returns a string for it.
\<close>

theorem invalid_base64_accepted_counterexample:
  "\<not> valid_base64 (CHR ''!'' # rgba_3x3) \<and>
   draw_circles_on_image_v2 lenient_library [] (CHR ''!'' # rgba_3x3) [] 15
     (Some (Named ''red'')) (Named ''red'') 1 = ([], Inr rgba_3x3)"
  by code_simp

text \<open>
  C3, amended. A string that \<^verbatim>\<open>base64.b64decode\<close>, called as the source calls it,
  rejects, and a string whose decoded octets the image library does not open, make the
  call print the line and raise the exception, with no output string.
\<close>

theorem invalid_input_rejected:
  "b64decode lib s = Inl e \<or> (b64decode lib s = Inr image_data \<and> Image_open lib image_data = Inl e) \<Longrightarrow>
   draw_circles_on_image_v2 lib out s coordinates radius fill_color outline_color outline_width =
     (out @ [error_prefix @ str_of lib e], Inl e)"
  by (rule raise_is_reported) (auto simp: try_body_def)

theorem invalid_input_rejected_witness:
  "draw_circles_on_image_v2 lenient_library [] ''AQI'' [(1, 1)] 15 (Some (Named ''red''))
     (Named ''red'') 1 =
     ([error_prefix @ ''Incorrect padding''], Inl binascii_Error) \<and>
   draw_circles_on_image_v2 lenient_library [] ''CQEBAA=='' [(1, 1)] 15 (Some (Named ''red''))
     (Named ''red'') 1 =
     ([error_prefix @ ''cannot identify image file''], Inl UnidentifiedImageError)"
proof -
  have h1: "b64decode lenient_library ''AQI'' = Inl binascii_Error"
    by code_simp
  have h2: "b64decode lenient_library ''CQEBAA=='' = Inr (map char_of [9, 1, 1, 0 :: nat])"
    by code_simp
  have h3: "Image_open lenient_library (map char_of [9, 1, 1, 0 :: nat]) =
              Inl UnidentifiedImageError"
    by (simp add: lenient_library_def sample_library_def sample_open_def)
  from invalid_input_rejected [of lenient_library "''AQI''" binascii_Error _ "[]"] h1
  have a: "draw_circles_on_image_v2 lenient_library [] ''AQI'' [(1, 1)] 15
             (Some (Named ''red'')) (Named ''red'') 1 =
           ([error_prefix @ ''Incorrect padding''], Inl binascii_Error)"
    by (simp add: lenient_library_def sample_library_def)
  from invalid_input_rejected [of lenient_library "''CQEBAA==''" UnidentifiedImageError
      "map char_of [9, 1, 1, 0 :: nat]" "[]"] h2 h3
  have b: "draw_circles_on_image_v2 lenient_library [] ''CQEBAA=='' [(1, 1)] 15
             (Some (Named ''red'')) (Named ''red'') 1 =
           ([error_prefix @ ''cannot identify image file''], Inl UnidentifiedImageError)"
    by (simp add: lenient_library_def sample_library_def)
  from a b show ?thesis by simp
qed


text \<open>
  C5. One coordinate \<open>(x, y)\<close>, an outline width that is not negative, and a drawing
  primitive that changes no pixel outside its box widened by the outline width: when the
  call returns, the image it has written as PNG has, at every point outside the box from
  \<open>(x - radius, y - radius)\<close> to \<open>(x + radius, y + radius)\<close> widened by the outline width,
  the pixel of the image the drawing started from (the input image, in RGBA).
\<close>

theorem pixels_outside_box_unchanged:
  assumes "ellipse_confined lib getpixel"
    and "0 \<le> outline_width"
    and "b64decode lib s = Inr image_data"
    and "Image_open lib image_data = Inr im0"
    and "to_rgba lib im0 = Inr im1"
    and "Draw lib im1 = Inr im2"
    and "draw_circles_on_image_v2 lib out s [(x, y)] radius fill_color outline_color
           outline_width = (out', Inr new_base64_string)"
  shows "\<exists>im3 byte_data.
           save lib im3 ''PNG'' = Inr byte_data \<and>
           bytes_decode lib (b64encode lib byte_data) ''utf-8'' = Inr new_base64_string \<and>
           (\<forall>p. outside_box p ((x - radius, y - radius), (x + radius, y + radius)) outline_width
                 \<longrightarrow> getpixel im3 p = getpixel im2 p)"
proof -
  from assms(3-7) obtain im3 byte_data where
    l: "draw_loop (ellipse lib) im2 [(x, y)] radius fill_color outline_color outline_width = Inr im3"
    and s: "save lib im3 ''PNG'' = Inr byte_data"
    and d: "bytes_decode lib (b64encode lib byte_data) ''utf-8'' = Inr new_base64_string"
    unfolding returns_iff try_body_returns by auto
  from l have "ellipse lib im2 ((x - radius, y - radius), (x + radius, y + radius))
                 fill_color outline_color outline_width = Inr im3"
    by (simp split: sum.splits)
  with assms(1,2) have "\<forall>p. outside_box p ((x - radius, y - radius), (x + radius, y + radius))
                              outline_width \<longrightarrow> getpixel im3 p = getpixel im2 p"
    unfolding ellipse_confined_def by blast
  with s d show ?thesis by blast
qed

theorem pixels_outside_box_unchanged_witness:
  "\<exists>im3 byte_data.
     save sample_library im3 ''PNG'' = Inr byte_data \<and>
     bytes_decode sample_library (b64encode sample_library byte_data) ''utf-8'' =
       Inr ''BAUFAAAA/woKCv8UFBT/Hh4e/ygoKP8yMjL/PDw8/0ZGRv9QUFD/Wlpa/2RkZP9ubm7/eHh4/wAAAP+MjIz/lpaW/6CgoP8AAAD//wAA/wAAAP/IyMj/0tLS/9zc3P8AAAD/8PDw/w=='' \<and>
     (\<forall>p. outside_box p ((2, 2), (4, 4)) 1 \<longrightarrow>
          im_pixel im3 p =
          im_pixel
            (projr (Draw sample_library
               (projr (to_rgba sample_library
                  (projr (Image_open sample_library
                     (projr (b64decode sample_library gray_5x5)))))))) p)"
proof -
  let ?data = "projr (b64decode sample_library gray_5x5)"
  let ?im0 = "projr (Image_open sample_library ?data)"
  let ?im1 = "projr (to_rgba sample_library ?im0)"
  let ?im2 = "projr (Draw sample_library ?im1)"
  have h1: "b64decode sample_library gray_5x5 = Inr ?data"
    by (rule is_value) code_simp
  have h2: "Image_open sample_library ?data = Inr ?im0"
    by (rule is_value) code_simp
  have h3: "to_rgba sample_library ?im0 = Inr ?im1"
    by (rule is_value) code_simp
  have h4: "Draw sample_library ?im1 = Inr ?im2"
    by (rule is_value) code_simp
  have h5: "draw_circles_on_image_v2 sample_library [] gray_5x5 [(3, 3)] 1
              (Some (Named ''red'')) (Named ''black'') 1 =
            ([], Inr ''BAUFAAAA/woKCv8UFBT/Hh4e/ygoKP8yMjL/PDw8/0ZGRv9QUFD/Wlpa/2RkZP9ubm7/eHh4/wAAAP+MjIz/lpaW/6CgoP8AAAD//wAA/wAAAP/IyMj/0tLS/9zc3P8AAAD/8PDw/w=='')"
    by code_simp
  have w: "(0 :: int) \<le> 1" by simp
  from pixels_outside_box_unchanged [OF sample_ellipse_confined w h1 h2 h3 h4 h5]
  show ?thesis by simp
qed

text \<open>
  C6. With no coordinates the call does what re-encoding the input does: for an input
  that decodes and opens, brought to RGBA by lines 38 and 39 (an RGBA image is left as it
  is), and a drawing context that leaves the image as it is, the call returns the base64
  text of that image written as PNG, and raises what writing it raises.
\<close>

theorem no_coordinates_reencodes_input:
  assumes "b64decode lib s = Inr image_data"
    and "Image_open lib image_data = Inr im0"
    and "to_rgba lib im0 = Inr im1"
    and "Draw lib im1 = Inr im1"
  shows "draw_circles_on_image_v2 lib out s [] radius fill_color outline_color outline_width =
           (case reencoded_as_png lib im1 of
              Inr new_base64_string \<Rightarrow> (out, Inr new_base64_string)
            | Inl e \<Rightarrow> (out @ [error_prefix @ str_of lib e], Inl e))"
  using assms
  by (simp add: draw_circles_on_image_v2_def try_body_def reencoded_as_png_def split: sum.splits)

theorem no_coordinates_reencodes_input_witness:
  "draw_circles_on_image_v2 sample_library [] rgba_3x3 [] 15 (Some (Named ''red''))
     (Named ''red'') 1 = ([], Inr rgba_3x3) \<and>
   reencoded_as_png sample_library
     (projr (Image_open sample_library (projr (b64decode sample_library rgba_3x3)))) =
     Inr rgba_3x3"
proof -
  let ?data = "projr (b64decode sample_library rgba_3x3)"
  let ?im0 = "projr (Image_open sample_library ?data)"
  have h1: "b64decode sample_library rgba_3x3 = Inr ?data"
    by (rule is_value) code_simp
  have h2: "Image_open sample_library ?data = Inr ?im0"
    by (rule is_value) code_simp
  have m: "mode sample_library ?im0 = ''RGBA''"
    by code_simp
  then have h3: "to_rgba sample_library ?im0 = Inr ?im0"
    by (simp add: to_rgba_def)
  have h4: "Draw sample_library ?im0 = Inr ?im0"
    by (simp add: sample_library_def)
  have r: "reencoded_as_png sample_library ?im0 = Inr rgba_3x3"
    by code_simp
  from no_coordinates_reencodes_input [OF h1 h2 h3 h4, of "[]"] r
  show ?thesis by simp
qed

text \<open>
  C7. An image whose mode has no alpha channel (whatever the modes with an alpha channel
  are, RGBA being one of them) is converted to RGBA, the drawing is done on the converted
  image, and what the call returns is the base64 text of the drawn image saved with the
  format PNG.
\<close>

theorem image_without_alpha_is_converted:
  assumes "has_alpha ''RGBA''"
    and "\<not> has_alpha (mode lib im0)"
    and "b64decode lib s = Inr image_data"
    and "Image_open lib image_data = Inr im0"
    and "draw_circles_on_image_v2 lib out s coordinates radius fill_color outline_color
           outline_width = (out', Inr new_base64_string)"
  shows "\<exists>im1 im2 im3 byte_data.
           convert lib im0 ''RGBA'' = Inr im1 \<and> Draw lib im1 = Inr im2 \<and>
           draw_loop (ellipse lib) im2 coordinates radius fill_color outline_color
             outline_width = Inr im3 \<and>
           save lib im3 ''PNG'' = Inr byte_data \<and>
           bytes_decode lib (b64encode lib byte_data) ''utf-8'' = Inr new_base64_string"
proof -
  from assms(1,2) have "mode lib im0 \<noteq> ''RGBA''" by auto
  then have "to_rgba lib im0 = convert lib im0 ''RGBA''" by (simp add: to_rgba_def)
  with assms(3-5) show ?thesis
    unfolding returns_iff try_body_returns by auto
qed

theorem image_without_alpha_is_converted_witness:
  "\<exists>im1 im2 im3 byte_data.
     convert sample_library
       (projr (Image_open sample_library (projr (b64decode sample_library gray_5x5))))
       ''RGBA'' = Inr im1 \<and>
     Draw sample_library im1 = Inr im2 \<and>
     draw_loop (ellipse sample_library) im2 [(3, 3)] 1 (Some (Named ''red''))
       (Named ''black'') 1 = Inr im3 \<and>
     save sample_library im3 ''PNG'' = Inr byte_data \<and>
     bytes_decode sample_library (b64encode sample_library byte_data) ''utf-8'' =
       Inr ''BAUFAAAA/woKCv8UFBT/Hh4e/ygoKP8yMjL/PDw8/0ZGRv9QUFD/Wlpa/2RkZP9ubm7/eHh4/wAAAP+MjIz/lpaW/6CgoP8AAAD//wAA/wAAAP/IyMj/0tLS/9zc3P8AAAD/8PDw/w==''"
proof -
  let ?data = "projr (b64decode sample_library gray_5x5)"
  let ?im0 = "projr (Image_open sample_library ?data)"
  let ?has_alpha = "\<lambda>m. m = ''RGBA'' \<or> m = ''LA''"
  have a1: "?has_alpha ''RGBA''" by simp
  have a2: "\<not> ?has_alpha (mode sample_library ?im0)"
    by code_simp
  have h1: "b64decode sample_library gray_5x5 = Inr ?data"
    by (rule is_value) code_simp
  have h2: "Image_open sample_library ?data = Inr ?im0"
    by (rule is_value) code_simp
  have h3: "draw_circles_on_image_v2 sample_library [] gray_5x5 [(3, 3)] 1
              (Some (Named ''red'')) (Named ''black'') 1 =
            ([], Inr ''BAUFAAAA/woKCv8UFBT/Hh4e/ygoKP8yMjL/PDw8/0ZGRv9QUFD/Wlpa/2RkZP9ubm7/eHh4/wAAAP+MjIz/lpaW/6CgoP8AAAD//wAA/wAAAP/IyMj/0tLS/9zc3P8AAAD/8PDw/w=='')"
    by code_simp
  from image_without_alpha_is_converted [of ?has_alpha, OF a1 a2 h1 h2 h3]
  show ?thesis .
qed

text \<open>
  C10. The test of lines 38 and 39 is \<open>mode \<noteq> RGBA\<close> and nothing else: an RGBA image is
  kept, every other image, one of mode LA too, is converted to RGBA. With an image
  library whose conversion gives the mode asked for and whose drawing keeps the mode, the
  image the context is made on, the image drawn on and the image saved are all of mode
  RGBA.
\<close>

theorem drawn_image_is_rgba:
  assumes "modes_kept lib"
    and "b64decode lib s = Inr image_data"
    and "Image_open lib image_data = Inr im0"
    and "draw_circles_on_image_v2 lib out s coordinates radius fill_color outline_color
           outline_width = (out', Inr new_base64_string)"
  shows "\<exists>im1 im2 im3 byte_data.
           to_rgba lib im0 = Inr im1 \<and>
           (if mode lib im0 = ''RGBA'' then im1 = im0 else convert lib im0 ''RGBA'' = Inr im1) \<and>
           mode lib im1 = ''RGBA'' \<and>
           Draw lib im1 = Inr im2 \<and> mode lib im2 = ''RGBA'' \<and>
           draw_loop (ellipse lib) im2 coordinates radius fill_color outline_color
             outline_width = Inr im3 \<and> mode lib im3 = ''RGBA'' \<and>
           save lib im3 ''PNG'' = Inr byte_data \<and>
           bytes_decode lib (b64encode lib byte_data) ''utf-8'' = Inr new_base64_string"
proof -
  from assms(2-4) obtain im1 im2 im3 byte_data where
    n: "to_rgba lib im0 = Inr im1" and c: "Draw lib im1 = Inr im2"
    and l: "draw_loop (ellipse lib) im2 coordinates radius fill_color outline_color
              outline_width = Inr im3"
    and s: "save lib im3 ''PNG'' = Inr byte_data"
    and d: "bytes_decode lib (b64encode lib byte_data) ''utf-8'' = Inr new_base64_string"
    unfolding returns_iff try_body_returns by auto
  from n have branch:
    "if mode lib im0 = ''RGBA'' then im1 = im0 else convert lib im0 ''RGBA'' = Inr im1"
    by (simp add: to_rgba_def split: if_splits)
  from assms(1) have conv: "\<And>im m im'. convert lib im m = Inr im' \<Longrightarrow> mode lib im' = m"
    and ctx: "\<And>im im'. Draw lib im = Inr im' \<Longrightarrow> mode lib im' = mode lib im"
    unfolding modes_kept_def by blast+
  from branch conv have m1: "mode lib im1 = ''RGBA''"
    by (cases "mode lib im0 = ''RGBA''") auto
  from ctx [OF c] m1 have m2: "mode lib im2 = ''RGBA''" by simp
  from draw_loop_mode [OF assms(1) l] m2 have m3: "mode lib im3 = ''RGBA''" by simp
  from n branch m1 c m2 l m3 s d show ?thesis by blast
qed

theorem drawn_image_is_rgba_witness:
  "mode sample_library
     (projr (Image_open sample_library (projr (b64decode sample_library la_2x2)))) = ''LA'' \<and>
   (\<exists>im1 im2 im3 byte_data.
     convert sample_library
       (projr (Image_open sample_library (projr (b64decode sample_library la_2x2))))
       ''RGBA'' = Inr im1 \<and>
     mode sample_library im1 = ''RGBA'' \<and>
     Draw sample_library im1 = Inr im2 \<and> mode sample_library im2 = ''RGBA'' \<and>
     draw_loop (ellipse sample_library) im2 [(1, 1)] 1 None (RGBA 1 2 3 4) 1 = Inr im3 \<and>
     mode sample_library im3 = ''RGBA'' \<and>
     save sample_library im3 ''PNG'' = Inr byte_data \<and>
     bytes_decode sample_library (b64encode sample_library byte_data) ''utf-8'' =
       Inr ''BAICBwcHyAECAwQBAgMEBwcHyA=='')"
proof -
  let ?data = "projr (b64decode sample_library la_2x2)"
  let ?im0 = "projr (Image_open sample_library ?data)"
  have h1: "b64decode sample_library la_2x2 = Inr ?data"
    by (rule is_value) code_simp
  have h2: "Image_open sample_library ?data = Inr ?im0"
    by (rule is_value) code_simp
  have h3: "draw_circles_on_image_v2 sample_library [] la_2x2 [(1, 1)] 1 None
              (RGBA 1 2 3 4) 1 = ([], Inr ''BAICBwcHyAECAwQBAgMEBwcHyA=='')"
    by code_simp
  have m: "mode sample_library ?im0 = ''LA''"
    by code_simp
  from drawn_image_is_rgba [OF sample_modes_kept h1 h2 h3] m
  show ?thesis by auto
qed

end
